theory Spec2Isabelle
  imports
    Main
    "HOL-Library.Char_ord"
    "HOL-Library.List_Lexorder"
    "HOL-Library.Product_Lexorder"
begin

section \<open>Values, errors and sequencing\<close>

text \<open>
  The script \<^verbatim>\<open>create_database.py\<close> works on pandas tables. A table cell read from a
  text file is a missing value (\<open>NaN\<close>), an integer or a piece of text. The script
  never catches an exception, so every function of the model returns either the
  exception (\<open>Inl\<close>) or its result (\<open>Inr\<close>), and the first exception raised wins.
  Fields written as decimal or boolean literals (which pandas reads as floats and
  booleans) are outside this development: the cells here are integers, text or missing.
\<close>

datatype cell = NaN | Num int | Txt string

datatype error =
    FileNotFoundError
  | EmptyDataError
  | ParserError
  | KeyError string
  | ValueError
  | TypeError
  | AttributeError
  | IndexError

definition and_then :: "error + 'a \<Rightarrow> ('a \<Rightarrow> error + 'b) \<Rightarrow> error + 'b" where
  "and_then m f = (case m of Inl e \<Rightarrow> Inl e | Inr x \<Rightarrow> f x)"

text \<open>An elementwise operation over a column: the first failing element raises.\<close>

fun traverse :: "('a \<Rightarrow> error + 'b) \<Rightarrow> 'a list \<Rightarrow> error + 'b list" where
  "traverse f [] = Inr []"
| "traverse f (x # xs) =
     (case f x of Inl e \<Rightarrow> Inl e
      | Inr y \<Rightarrow> (case traverse f xs of Inl e \<Rightarrow> Inl e | Inr ys \<Rightarrow> Inr (y # ys)))"

text \<open>A loop whose body appends to a result list: the first failing iteration raises.\<close>

fun collect :: "('a \<Rightarrow> error + 'b list) \<Rightarrow> 'a list \<Rightarrow> error + 'b list" where
  "collect f [] = Inr []"
| "collect f (x # xs) =
     (case f x of Inl e \<Rightarrow> Inl e
      | Inr ys \<Rightarrow> (case collect f xs of Inl e \<Rightarrow> Inl e | Inr zs \<Rightarrow> Inr (ys @ zs)))"

section \<open>Text and integers\<close>

definition is_digit :: "char \<Rightarrow> bool" where
  "is_digit c = (48 \<le> (of_char c :: nat) \<and> (of_char c :: nat) \<le> 57)"

definition digit_val :: "char \<Rightarrow> nat" where
  "digit_val c = of_char c - 48"

definition nat_of_digits :: "string \<Rightarrow> nat" where
  "nat_of_digits ds = foldl (\<lambda>a c. 10 * a + digit_val c) 0 ds"

text \<open>
  An integer literal: an optional sign and one or more decimal digits. This is the
  text that \<^verbatim>\<open>read_csv\<close> turns into an integer and that \<^verbatim>\<open>int(...)\<close> and
  \<^verbatim>\<open>astype(int)\<close> accept from a string.
\<close>

definition int_of_str :: "string \<Rightarrow> int option" where
  "int_of_str s =
     (if s \<noteq> [] \<and> hd s = CHR ''-'' then
        (if tl s \<noteq> [] \<and> list_all is_digit (tl s) then Some (- int (nat_of_digits (tl s))) else None)
      else if s \<noteq> [] \<and> hd s = CHR ''+'' then
        (if tl s \<noteq> [] \<and> list_all is_digit (tl s) then Some (int (nat_of_digits (tl s))) else None)
      else if s \<noteq> [] \<and> list_all is_digit s then Some (int (nat_of_digits s))
      else None)"

definition digit_char :: "nat \<Rightarrow> char" where
  "digit_char n = char_of (48 + n)"

fun str_nat :: "nat \<Rightarrow> string" where
  "str_nat n = (if n < 10 then [digit_char n] else str_nat (n div 10) @ [digit_char (n mod 10)])"

declare str_nat.simps [simp del]

text \<open>Python's \<^verbatim>\<open>str\<close> of an integer.\<close>

definition str_int :: "int \<Rightarrow> string" where
  "str_int i = (if i < 0 then CHR ''-'' # str_nat (nat (- i)) else str_nat (nat i))"

text \<open>Python's format specification \<^verbatim>\<open>02d\<close>: zeros between the sign and the digits up to width 2.\<close>

definition format_02d :: "int \<Rightarrow> string" where
  "format_02d i =
     (let sign = (if i < 0 then ''-'' else ''''); ds = str_nat (nat (abs i))
      in sign @ replicate (2 - length sign - length ds) (CHR ''0'') @ ds)"

text \<open>Python's \<^verbatim>\<open>s.replace(old, new)\<close> for a non-empty \<open>old\<close>: left to right, without overlap.\<close>

function str_replace :: "string \<Rightarrow> string \<Rightarrow> string \<Rightarrow> string" where
  "str_replace old new [] = []"
| "str_replace old new (c # s) =
     (if old \<noteq> [] \<and> take (length old) (c # s) = old
      then new @ str_replace old new (drop (length old) (c # s))
      else c # str_replace old new s)"
  by pat_completeness auto
termination
  by (relation "measure (\<lambda>(old, new, s). length s)") auto

section \<open>Reading a tab-separated file\<close>

text \<open>
  A file is its lines, each split at the tabs into fields; the file system maps a path
  to the file there, if any. \<^verbatim>\<open>pd.read_csv\<close> with its default settings
  \<^item> skips blank lines;
  \<^item> takes the table's width from the first line, fills a shorter line with missing
    values and refuses a longer one;
  \<^item> reads each field that is one of its missing-value markers as \<open>NaN\<close>;
  \<^item> makes a column whose other fields are all integer literals an integer column, and
    keeps every field of any other column as text.
\<close>

type_synonym raw_table = "string list list"
type_synonym filesystem = "string \<Rightarrow> raw_table option"

definition na_values :: "string list" where
  "na_values = ['''', ''#N/A'', ''#N/A N/A'', ''#NA'', ''-1.#IND'', ''-1.#QNAN'', ''-NaN'',
     ''-nan'', ''1.#IND'', ''1.#QNAN'', ''<NA>'', ''N/A'', ''NA'', ''NULL'', ''NaN'', ''None'',
     ''n/a'', ''nan'', ''null'']"

definition is_na :: "string \<Rightarrow> bool" where
  "is_na s = (s \<in> set na_values)"

definition is_text :: "string \<Rightarrow> bool" where
  "is_text s = (\<not> is_na s \<and> int_of_str s = None)"

definition field_at :: "string list \<Rightarrow> nat \<Rightarrow> string" where
  "field_at r j = (if j < length r then r ! j else '''')"

definition col_is_text :: "raw_table \<Rightarrow> nat \<Rightarrow> bool" where
  "col_is_text rows j = list_ex (\<lambda>r. is_text (field_at r j)) rows"

definition read_cell :: "raw_table \<Rightarrow> string list \<Rightarrow> nat \<Rightarrow> cell" where
  "read_cell rows r j =
     (let s = field_at r j in
      if is_na s then NaN
      else if col_is_text rows j then Txt s
      else (case int_of_str s of Some n \<Rightarrow> Num n | None \<Rightarrow> Txt s))"

definition infer_cells :: "nat \<Rightarrow> raw_table \<Rightarrow> cell list list" where
  "infer_cells w rows = map (\<lambda>r. map (read_cell rows r) [0..<w]) rows"

definition nonblank :: "raw_table \<Rightarrow> raw_table" where
  "nonblank lines = filter (\<lambda>r. r \<noteq> [] \<and> r \<noteq> ['''']) lines"

text \<open>\<^verbatim>\<open>pd.read_csv(filepath, sep='\t', header=None)\<close>\<close>

definition read_csv_noheader :: "filesystem \<Rightarrow> string \<Rightarrow> error + cell list list" where
  "read_csv_noheader fs filepath =
     (case fs filepath of
        None \<Rightarrow> Inl FileNotFoundError
      | Some lines \<Rightarrow>
          (case nonblank lines of
             [] \<Rightarrow> Inl EmptyDataError
           | r0 # rs \<Rightarrow>
               if list_ex (\<lambda>r. length r0 < length r) rs then Inl ParserError
               else Inr (infer_cells (length r0) (r0 # rs))))"

text \<open>\<^verbatim>\<open>pd.read_csv(filepath, sep='\t')\<close>: the first line names the columns.\<close>

record frame =
  names :: "string list"
  body :: "cell list list"

definition read_csv :: "filesystem \<Rightarrow> string \<Rightarrow> error + frame" where
  "read_csv fs filepath =
     (case fs filepath of
        None \<Rightarrow> Inl FileNotFoundError
      | Some lines \<Rightarrow>
          (case nonblank lines of
             [] \<Rightarrow> Inl EmptyDataError
           | h # rs \<Rightarrow>
               if list_ex (\<lambda>r. length h < length r) rs then Inl ParserError
               else Inr \<lparr>names = h, body = infer_cells (length h) rs\<rparr>))"

definition cell_at :: "cell list \<Rightarrow> nat \<Rightarrow> cell" where
  "cell_at r j = (if j < length r then r ! j else NaN)"

fun col_index :: "string \<Rightarrow> string list \<Rightarrow> nat option" where
  "col_index n [] = None"
| "col_index n (c # cs) = (if c = n then Some 0 else map_option Suc (col_index n cs))"

text \<open>\<^verbatim>\<open>df[name]\<close>: the column of that name, or a \<^verbatim>\<open>KeyError\<close>.\<close>

definition column :: "frame \<Rightarrow> string \<Rightarrow> error + cell list" where
  "column df name =
     (case col_index name (names df) of
        None \<Rightarrow> Inl (KeyError name)
      | Some j \<Rightarrow> Inr (map (\<lambda>r. cell_at r j) (body df)))"

section \<open>Timestamps\<close>

text \<open>
  \<^verbatim>\<open>pd.to_datetime(..., format='%d %b %y %H:%M:%S')\<close> matches the whole text against
  the format: a day of one or two digits (or a blank and one digit), an abbreviated
  English month name in any letter case, a two-digit year, and hour, minute and second
  of one or two digits, with white space between the four parts. The alternatives are
  tried in the order of the format's regular expression. A two-digit year up to 68 is in
  the 2000s, a later one in the 1900s. A timestamp is (year, month, day, hour, minute,
  second); the order of the tuples is the order of time.
\<close>

type_synonym timestamp = "nat \<times> nat \<times> nat \<times> nat \<times> nat \<times> nat"

definition is_space :: "char \<Rightarrow> bool" where
  "is_space c = (c \<in> set [CHR 0x20, CHR 0x09, CHR 0x0A, CHR 0x0B, CHR 0x0C, CHR 0x0D])"

definition lower_char :: "char \<Rightarrow> char" where
  "lower_char c =
     (if 65 \<le> (of_char c :: nat) \<and> (of_char c :: nat) \<le> 90 then char_of ((of_char c :: nat) + 32) else c)"

definition two_digits :: "nat \<Rightarrow> nat \<Rightarrow> string \<Rightarrow> (nat \<times> string) list" where
  "two_digits lo hi s =
     (case s of
        a # b # r \<Rightarrow>
          if is_digit a \<and> is_digit b \<and> lo \<le> 10 * digit_val a + digit_val b
             \<and> 10 * digit_val a + digit_val b \<le> hi
          then [(10 * digit_val a + digit_val b, r)] else []
      | _ \<Rightarrow> [])"

definition one_digit :: "nat \<Rightarrow> nat \<Rightarrow> string \<Rightarrow> (nat \<times> string) list" where
  "one_digit lo hi s =
     (case s of
        a # r \<Rightarrow> if is_digit a \<and> lo \<le> digit_val a \<and> digit_val a \<le> hi then [(digit_val a, r)] else []
      | [] \<Rightarrow> [])"

definition p_day :: "string \<Rightarrow> (nat \<times> string) list" where
  "p_day s =
     two_digits 1 31 s @ one_digit 1 9 s
     @ (case s of a # r \<Rightarrow> if a = CHR 0x20 then one_digit 1 9 r else [] | [] \<Rightarrow> [])"

definition p_space :: "string \<Rightarrow> string list" where
  "p_space s = (case s of a # r \<Rightarrow> if is_space a then [dropWhile is_space r] else [] | [] \<Rightarrow> [])"

definition p_lit :: "char \<Rightarrow> string \<Rightarrow> string list" where
  "p_lit c s = (case s of a # r \<Rightarrow> if a = c then [r] else [] | [] \<Rightarrow> [])"

definition month_names :: "string list" where
  "month_names = [''jan'', ''feb'', ''mar'', ''apr'', ''may'', ''jun'', ''jul'', ''aug'', ''sep'',
     ''oct'', ''nov'', ''dec'']"

definition p_month :: "string \<Rightarrow> (nat \<times> string) list" where
  "p_month s =
     [(Suc i, drop 3 s). i \<leftarrow> [0..<12], length s \<ge> 3, map lower_char (take 3 s) = month_names ! i]"

definition leap_year :: "nat \<Rightarrow> bool" where
  "leap_year y = (y mod 4 = 0 \<and> (y mod 100 \<noteq> 0 \<or> y mod 400 = 0))"

definition days_in_month :: "nat \<Rightarrow> nat \<Rightarrow> nat" where
  "days_in_month y m =
     (if m = 2 then (if leap_year y then 29 else 28)
      else if m \<in> set [4, 6, 9, 11] then 30 else 31)"

definition strptime :: "string \<Rightarrow> timestamp option" where
  "strptime s =
     (case [(d, mo, y, h, mi, se).
              (d, r1) \<leftarrow> p_day s, r2 \<leftarrow> p_space r1,
              (mo, r3) \<leftarrow> p_month r2, r4 \<leftarrow> p_space r3,
              (y, r5) \<leftarrow> two_digits 0 99 r4, r6 \<leftarrow> p_space r5,
              (h, r7) \<leftarrow> two_digits 0 23 r6 @ one_digit 0 9 r6, r8 \<leftarrow> p_lit (CHR '':'') r7,
              (mi, r9) \<leftarrow> two_digits 0 59 r8 @ one_digit 0 9 r8, r10 \<leftarrow> p_lit (CHR '':'') r9,
              (se, r11) \<leftarrow> two_digits 0 59 r10 @ one_digit 0 9 r10, r11 = []] of
        [] \<Rightarrow> None
      | (d, mo, y, h, mi, se) # _ \<Rightarrow>
          (let year = (if y \<le> 68 then 2000 + y else 1900 + y)
           in if d \<le> days_in_month year mo then Some (year, mo, d, h, mi, se) else None))"

section \<open>The tables\<close>

text \<open>
  Both output tables carry the columns \<open>monitor\<close> and \<open>channel\<close>, the key on which they
  are joined. A time-series row adds the timestamp (\<open>None\<close> is pandas' \<open>NaT\<close>) and the
  three counters; a metadata row adds the fly's identifier and description.
\<close>

record fly_key =
  monitor :: int
  channel :: int

record ts_record = fly_key +
  datetime :: "timestamp option"
  mt :: int
  ct :: int
  pn :: int

record fly_record = fly_key +
  fly_id :: string
  genotype :: cell
  sex :: cell
  treatment :: cell

section \<open>parse\_monitor\_file\<close>

text \<open>The column names the function gives the table: ten fixed names, then \<open>ch1\<close> to \<open>ch32\<close>.\<close>

definition columns :: "string list" where
  "columns =
     [''id'', ''date'', ''time'', ''port'', ''unknown1'', ''unknown2'', ''unknown3'',
      ''movement_type'', ''zero1'', ''zero2'']
     @ map (\<lambda>i. ''ch'' @ str_nat i) [1..<33]"

text \<open>\<^verbatim>\<open>df.columns = columns\<close> raises a \<^verbatim>\<open>ValueError\<close> unless the table is as wide as the list.\<close>

definition set_columns :: "cell list list \<Rightarrow> error + frame" where
  "set_columns rows =
     (if list_all (\<lambda>r. length r = length columns) rows
      then Inr \<lparr>names = columns, body = rows\<rparr> else Inl ValueError)"

text \<open>A row of the table with its parsed timestamp; \<open>get\<close> reads a row's cell by column name.\<close>

type_synonym lrow = "cell list \<times> timestamp option"

definition get :: "lrow \<Rightarrow> string \<Rightarrow> cell" where
  "get r name = (case col_index name columns of Some j \<Rightarrow> cell_at (fst r) j | None \<Rightarrow> NaN)"

definition is_txt :: "cell \<Rightarrow> bool" where
  "is_txt c = (case c of Txt _ \<Rightarrow> True | _ \<Rightarrow> False)"

text \<open>
  \<^verbatim>\<open>df['date'] + ' '\<close>: a numeric column and a string do not add (\<^verbatim>\<open>TypeError\<close>); in a
  text column a missing value stays missing.
\<close>

definition add_str :: "cell list \<Rightarrow> string \<Rightarrow> error + string option list" where
  "add_str col s =
     (if col \<noteq> [] \<and> \<not> list_ex is_txt col then Inl TypeError
      else traverse (\<lambda>c. case c of NaN \<Rightarrow> Inr None | Txt a \<Rightarrow> Inr (Some (a @ s)) | Num _ \<Rightarrow> Inl TypeError) col)"

text \<open>\<^verbatim>\<open>... + df['time']\<close>: text and text concatenate, a missing value on either side gives one.\<close>

definition add_series :: "string option list \<Rightarrow> cell list \<Rightarrow> error + string option list" where
  "add_series xs ys =
     traverse (\<lambda>(x, y). case x of None \<Rightarrow> Inr None
         | Some a \<Rightarrow> (case y of NaN \<Rightarrow> Inr None | Txt b \<Rightarrow> Inr (Some (a @ b)) | Num _ \<Rightarrow> Inl TypeError))
       (zip xs ys)"

definition to_datetime :: "string option list \<Rightarrow> error + timestamp option list" where
  "to_datetime xs =
     traverse (\<lambda>x. case x of None \<Rightarrow> Inr None
         | Some s \<Rightarrow> (case strptime s of Some t \<Rightarrow> Inr (Some t) | None \<Rightarrow> Inl ValueError)) xs"

definition movement_types :: "string list" where
  "movement_types = [''MT'', ''CT'', ''Pn'']"

definition isin :: "cell \<Rightarrow> string list \<Rightarrow> bool" where
  "isin c vs = (case c of Txt s \<Rightarrow> s \<in> set vs | _ \<Rightarrow> False)"

text \<open>
  \<^verbatim>\<open>groupby(['id', 'date', 'time'])\<close> drops the rows with a missing key, and yields the
  groups in the order of their keys (integers by value before text by characters), each
  group's rows in the order of the table.
\<close>

definition cell_key :: "cell \<Rightarrow> nat \<times> int \<times> string" where
  "cell_key c = (case c of Num n \<Rightarrow> (0, n, []) | Txt s \<Rightarrow> (1, 0, s) | NaN \<Rightarrow> (2, 0, []))"

definition group_key :: "lrow \<Rightarrow> (nat \<times> int \<times> string) \<times> (nat \<times> int \<times> string) \<times> (nat \<times> int \<times> string)" where
  "group_key r = (cell_key (get r ''id''), cell_key (get r ''date''), cell_key (get r ''time''))"

definition has_key :: "lrow \<Rightarrow> bool" where
  "has_key r = (get r ''id'' \<noteq> NaN \<and> get r ''date'' \<noteq> NaN \<and> get r ''time'' \<noteq> NaN)"

definition groupby :: "lrow list \<Rightarrow> lrow list list" where
  "groupby rows =
     (let keyed = filter has_key rows
      in map (\<lambda>k. filter (\<lambda>r. group_key r = k) keyed) (sort (remdups (map group_key keyed))))"

text \<open>
  \<^verbatim>\<open>group[group['movement_type'] == t].iloc[0] if t in group['movement_type'].values else None\<close>
\<close>

definition first_of_type :: "lrow list \<Rightarrow> string \<Rightarrow> lrow option" where
  "first_of_type grp t = find (\<lambda>r. get r ''movement_type'' = Txt t) grp"

text \<open>\<^verbatim>\<open>data[channel_col] if data is not None else 0\<close>\<close>

definition channel_value :: "lrow option \<Rightarrow> string \<Rightarrow> cell" where
  "channel_value data channel_col = (case data of None \<Rightarrow> Num 0 | Some r \<Rightarrow> get r channel_col)"

text \<open>\<^verbatim>\<open>v > 0\<close>: false for a missing value, a \<^verbatim>\<open>TypeError\<close> for text.\<close>

definition gt0 :: "cell \<Rightarrow> error + bool" where
  "gt0 c = (case c of Num n \<Rightarrow> Inr (0 < n) | NaN \<Rightarrow> Inr False | Txt _ \<Rightarrow> Inl TypeError)"

text \<open>\<^verbatim>\<open>mt_val > 0 or ct_val > 0 or pn_val > 0\<close>, evaluated from the left until one holds.\<close>

definition any_gt0 :: "cell \<Rightarrow> cell \<Rightarrow> cell \<Rightarrow> error + bool" where
  "any_gt0 a b c =
     and_then (gt0 a) (\<lambda>x. if x then Inr True
       else and_then (gt0 b) (\<lambda>y. if y then Inr True else gt0 c))"

text \<open>\<^verbatim>\<open>int(v)\<close>: a \<^verbatim>\<open>ValueError\<close> for a missing value and for text that is no integer literal.\<close>

definition py_int :: "cell \<Rightarrow> error + int" where
  "py_int c =
     (case c of Num n \<Rightarrow> Inr n | NaN \<Rightarrow> Inl ValueError
      | Txt s \<Rightarrow> (case int_of_str s of Some n \<Rightarrow> Inr n | None \<Rightarrow> Inl ValueError))"

text \<open>The body of the loop over the channels, for one group.\<close>

definition emit_channel ::
  "int \<Rightarrow> timestamp option \<Rightarrow> lrow option \<Rightarrow> lrow option \<Rightarrow> lrow option \<Rightarrow> nat
     \<Rightarrow> error + ts_record list" where
  "emit_channel monitor_num datetime_val mt_data ct_data pn_data channel_no =
     (let channel_col = ''ch'' @ str_nat channel_no;
          mt_val = channel_value mt_data channel_col;
          ct_val = channel_value ct_data channel_col;
          pn_val = channel_value pn_data channel_col
      in and_then (any_gt0 mt_val ct_val pn_val) (\<lambda>active.
           if active then
             and_then (py_int mt_val) (\<lambda>m.
             and_then (py_int ct_val) (\<lambda>c.
             and_then (py_int pn_val) (\<lambda>p.
               Inr [\<lparr>monitor = monitor_num, channel = int channel_no, datetime = datetime_val,
                     mt = m, ct = c, pn = p\<rparr>])))
           else Inr []))"

text \<open>
  The body of the loop over the groups: the timestamp is the first row's, and each
  movement type's values come from the first row of that type.
\<close>

definition reshape_group :: "int \<Rightarrow> lrow list \<Rightarrow> error + ts_record list" where
  "reshape_group monitor_num grp =
     (case grp of
        [] \<Rightarrow> Inl IndexError
      | r # _ \<Rightarrow>
          collect (emit_channel monitor_num (snd r) (first_of_type grp ''MT'')
                     (first_of_type grp ''CT'') (first_of_type grp ''Pn'')) [1..<33])"

text \<open>
  The first part of the function: the table read from the file, with the column names
  set and the \<open>datetime\<close> column added. Every row's timestamp is parsed, also the rows
  that the filter on the movement type drops afterwards.
\<close>

definition read_monitor_table :: "filesystem \<Rightarrow> string \<Rightarrow> error + lrow list" where
  "read_monitor_table fs filepath =
     and_then (read_csv_noheader fs filepath) (\<lambda>rows.
     and_then (set_columns rows) (\<lambda>df.
     and_then (column df ''date'') (\<lambda>date.
     and_then (column df ''time'') (\<lambda>time.
     and_then (add_str date '' '') (\<lambda>date_sp.
     and_then (add_series date_sp time) (\<lambda>date_time.
     and_then (to_datetime date_time) (\<lambda>datetime_col.
       Inr (zip (body df) datetime_col))))))))"

text \<open>\<^verbatim>\<open>df[df['movement_type'].isin(movement_types)]\<close>\<close>

definition filter_movement :: "lrow list \<Rightarrow> lrow list" where
  "filter_movement df = filter (\<lambda>r. isin (get r ''movement_type'') movement_types) df"

text \<open>
  The function itself. An empty result list makes a table without columns, so the
  summary printed before the return raises \<^verbatim>\<open>KeyError: 'channel'\<close>.
\<close>

definition parse_monitor_file :: "filesystem \<Rightarrow> string \<Rightarrow> int \<Rightarrow> error + ts_record list" where
  "parse_monitor_file fs filepath monitor_num =
     and_then (read_monitor_table fs filepath) (\<lambda>df.
     and_then (collect (reshape_group monitor_num) (groupby (filter_movement df)))
       (\<lambda>time_series_list.
          if time_series_list = [] then Inl (KeyError ''channel'') else Inr time_series_list))"

section \<open>parse\_details\<close>

text \<open>\<^verbatim>\<open>series.astype(int)\<close>: every element through \<^verbatim>\<open>int\<close>.\<close>

definition astype_int :: "cell list \<Rightarrow> error + int list" where
  "astype_int col = traverse py_int col"

text \<open>
  \<^verbatim>\<open>series.str.replace(old, new)\<close>: the \<^verbatim>\<open>.str\<close> accessor exists on a text column only
  (\<^verbatim>\<open>AttributeError\<close> otherwise), and gives a missing value for every element that is no
  text.
\<close>

definition str_replace_col :: "cell list \<Rightarrow> string \<Rightarrow> string \<Rightarrow> error + cell list" where
  "str_replace_col col old new =
     (if col \<noteq> [] \<and> \<not> list_ex is_txt col then Inl AttributeError
      else Inr (map (\<lambda>c. case c of Txt s \<Rightarrow> Txt (str_replace old new s) | _ \<Rightarrow> NaN) col))"

text \<open>\<^verbatim>\<open>f"M{row['monitor']}_Ch{row['channel']:02d}"\<close>\<close>

definition make_fly_id :: "int \<Rightarrow> int \<Rightarrow> string" where
  "make_fly_id m c = ''M'' @ str_int m @ ''_Ch'' @ format_02d c"

definition make_row :: "int \<times> int \<times> cell \<times> cell \<times> cell \<Rightarrow> fly_record" where
  "make_row t =
     (case t of (m, c, g, s, tr) \<Rightarrow>
        \<lparr>monitor = m, channel = c, fly_id = make_fly_id m c, genotype = g, sex = s, treatment = tr\<rparr>)"

text \<open>
  The function works column by column, in the order of the source. On a table without
  rows \<^verbatim>\<open>df.apply(..., axis=1)\<close> returns a table instead of a column, and the assignment
  to \<^verbatim>\<open>df['fly_id']\<close> raises a \<^verbatim>\<open>ValueError\<close>. The last step keeps the rows whose
  genotype differs from the text \<^verbatim>\<open>'NA'\<close>; a missing value differs from every text.
\<close>

definition parse_details :: "filesystem \<Rightarrow> string \<Rightarrow> error + fly_record list" where
  "parse_details fs filepath =
     and_then (read_csv fs filepath) (\<lambda>df.
     and_then (column df ''Monitor'') (\<lambda>monitor_raw.
     and_then (astype_int monitor_raw) (\<lambda>monitor_col.
     and_then (column df ''Channel'') (\<lambda>channel_raw.
     and_then (str_replace_col channel_raw ''ch'' []) (\<lambda>channel_str.
     and_then (astype_int channel_str) (\<lambda>channel_col.
     and_then (column df ''Genotype'') (\<lambda>genotype_col.
     and_then (column df ''Sex'') (\<lambda>sex_col.
     and_then (column df ''Treatment'') (\<lambda>treatment_col.
       if body df = [] then Inl ValueError
       else Inr (filter (\<lambda>r. genotype r \<noteq> Txt ''NA'')
                   (map make_row
                      (zip monitor_col (zip channel_col
                         (zip genotype_col (zip sex_col treatment_col)))))))))))))))"

section \<open>main\<close>

text \<open>
  \<^verbatim>\<open>sort_values(['datetime', 'monitor', 'channel'])\<close>: a stable sort on the three
  columns, a missing timestamp after every timestamp.
\<close>

definition sort_cols :: "ts_record \<Rightarrow> (nat \<times> timestamp) \<times> int \<times> int" where
  "sort_cols r =
     ((case datetime r of Some t \<Rightarrow> (0, t) | None \<Rightarrow> (1, (0, 0, 0, 0, 0, 0))), monitor r, channel r)"

definition sort_values :: "ts_record list \<Rightarrow> ts_record list" where
  "sort_values xs = sort_key sort_cols xs"

text \<open>
  \<^verbatim>\<open>left.merge(right, on=['monitor', 'channel'])\<close>: the inner join, every left row with
  each right row of the same key, in the order of the left table.
\<close>

definition merge :: "ts_record list \<Rightarrow> fly_record list \<Rightarrow> (ts_record \<times> fly_record) list" where
  "merge left right =
     concat (map (\<lambda>l. map (\<lambda>r. (l, r))
                         (filter (\<lambda>r. monitor r = monitor l \<and> channel r = channel l) right)) left)"

text \<open>
  The files the run has written so far, and the run: the metadata table is written
  before the monitor logs are read, the time-series table before the join is made.
\<close>

record disk =
  fly_metadata_csv :: "fly_record list option"
  time_series_data_csv :: "ts_record list option"

definition main :: "filesystem \<Rightarrow> disk \<times> (error + (ts_record \<times> fly_record) list)" where
  "main fs =
     (case parse_details fs ''../details.txt'' of
        Inl e \<Rightarrow> (\<lparr>fly_metadata_csv = None, time_series_data_csv = None\<rparr>, Inl e)
      | Inr fly_metadata \<Rightarrow>
          (case and_then (parse_monitor_file fs ''../Monitor5.txt'' 5) (\<lambda>monitor5_data.
                and_then (parse_monitor_file fs ''../Monitor6.txt'' 6) (\<lambda>monitor6_data.
                  Inr (sort_values (monitor5_data @ monitor6_data)))) of
             Inl e \<Rightarrow> (\<lparr>fly_metadata_csv = Some fly_metadata, time_series_data_csv = None\<rparr>, Inl e)
           | Inr time_series_data \<Rightarrow>
               (\<lparr>fly_metadata_csv = Some fly_metadata,
                 time_series_data_csv = Some time_series_data\<rparr>,
                Inr (merge time_series_data fly_metadata))))"

section \<open>Example files\<close>

definition log_row :: "string \<Rightarrow> string \<Rightarrow> string \<Rightarrow> string \<Rightarrow> string list \<Rightarrow> string list" where
  "log_row i d t m chs =
     [i, d, t, ''1'', ''0'', ''0'', ''0'', m, ''0'', ''0''] @ chs @ replicate (32 - length chs) ''0''"

definition details_header :: "string list" where
  "details_header = [''Monitor'', ''Channel'', ''Genotype'', ''Sex'', ''Treatment'']"

definition example_fs :: filesystem where
  "example_fs =
     (Map.empty
        (''../details.txt'' \<mapsto>
           [details_header,
            [''5'', ''ch1'', ''wt'', ''M'', ''ctrl''],
            [''6'', ''ch2'', ''per0'', ''F'', ''drug'']],
         ''../Monitor5.txt'' \<mapsto>
           [log_row ''1'' ''01 Jan 24'' ''00:00:00'' ''MT'' [''5'', ''0''],
            log_row ''1'' ''01 Jan 24'' ''00:00:00'' ''CT'' [''2'', ''0'']],
         ''../Monitor6.txt'' \<mapsto>
           [log_row ''7'' ''31 Dec 23'' ''23:59:00'' ''MT'' [''0'', ''4'', ''1'']]))"


definition short_row :: "string \<Rightarrow> string \<Rightarrow> string \<Rightarrow> string \<Rightarrow> string list \<Rightarrow> string list" where
  "short_row i d t m chs =
     [i, d, t, ''1'', ''0'', ''0'', m, ''0'', ''0''] @ chs @ replicate (32 - length chs) ''0''"

definition narrow_fs :: filesystem where
  "narrow_fs =
     (Map.empty
        (''../Monitor5.txt'' \<mapsto> [short_row ''1'' ''01 Jan 24'' ''00:00:00'' ''MT'' [''5'', ''0'']]))"

lemma columns_code [code]:
  "columns =
     [''id'', ''date'', ''time'', ''port'', ''unknown1'', ''unknown2'', ''unknown3'',
      ''movement_type'', ''zero1'', ''zero2'',
      ''ch1'', ''ch2'', ''ch3'', ''ch4'', ''ch5'', ''ch6'', ''ch7'', ''ch8'',
      ''ch9'', ''ch10'', ''ch11'', ''ch12'', ''ch13'', ''ch14'', ''ch15'', ''ch16'',
      ''ch17'', ''ch18'', ''ch19'', ''ch20'', ''ch21'', ''ch22'', ''ch23'', ''ch24'',
      ''ch25'', ''ch26'', ''ch27'', ''ch28'', ''ch29'', ''ch30'', ''ch31'', ''ch32'']"
  unfolding columns_def by code_simp

section \<open>Sequencing lemmas\<close>

lemma and_then_Inr_iff: "and_then m f = Inr y \<longleftrightarrow> (\<exists>x. m = Inr x \<and> f x = Inr y)"
  by (cases m) (simp_all add: and_then_def)

lemma and_then_Inl: "and_then (Inl e) f = Inl e"
  by (simp add: and_then_def)

lemma and_then_Inr: "and_then (Inr x) f = f x"
  by (simp add: and_then_def)

lemma and_then_isl: "isl m \<Longrightarrow> isl (and_then m f)"
  by (cases m) (simp_all add: and_then_def)


lemma collect_Inr_mem:
  "collect f xs = Inr out \<Longrightarrow> r \<in> set out \<Longrightarrow> \<exists>x\<in>set xs. \<exists>ys. f x = Inr ys \<and> r \<in> set ys"
  by (induction xs arbitrary: out) (auto split: sum.splits)

lemma collect_isl: "x \<in> set xs \<Longrightarrow> isl (f x) \<Longrightarrow> isl (collect f xs)"
  by (induction xs) (auto split: sum.splits)

lemma traverse_Inr: "traverse f xs = Inr ys \<Longrightarrow> list_all2 (\<lambda>x y. f x = Inr y) xs ys"
  by (induction xs arbitrary: ys) (auto split: sum.splits)

lemma traverse_isl: "x \<in> set xs \<Longrightarrow> isl (f x) \<Longrightarrow> isl (traverse f xs)"
  by (induction xs) (auto split: sum.splits)

section \<open>Emitted records\<close>

lemma gt0_True: "gt0 c = Inr True \<Longrightarrow> \<exists>n. c = Num n \<and> 0 < n"
  by (cases c) (simp_all add: gt0_def)


lemma any_gt0_True:
  "any_gt0 a b c = Inr True \<Longrightarrow>
     (\<exists>n. a = Num n \<and> 0 < n) \<or> (\<exists>n. b = Num n \<and> 0 < n) \<or> (\<exists>n. c = Num n \<and> 0 < n)"
  by (auto simp: any_gt0_def and_then_def split: sum.splits if_splits dest: gt0_True)


lemma py_int_Num: "py_int (Num n) = Inr n"
  by (simp add: py_int_def)

text \<open>What one iteration of the channel loop appends.\<close>

lemma emit_channel_Inr:
  assumes "emit_channel monitor_num dt a b c k = Inr ys"
  shows "(ys = [] \<and> any_gt0 (channel_value a (''ch'' @ str_nat k)) (channel_value b (''ch'' @ str_nat k))
                      (channel_value c (''ch'' @ str_nat k)) = Inr False)
       \<or> (\<exists>m n p. ys = [\<lparr>monitor = monitor_num, channel = int k, datetime = dt, mt = m, ct = n, pn = p\<rparr>]
            \<and> py_int (channel_value a (''ch'' @ str_nat k)) = Inr m
            \<and> py_int (channel_value b (''ch'' @ str_nat k)) = Inr n
            \<and> py_int (channel_value c (''ch'' @ str_nat k)) = Inr p
            \<and> (0 < m \<or> 0 < n \<or> 0 < p))"
proof -
  let ?a = "channel_value a (''ch'' @ str_nat k)"
  let ?b = "channel_value b (''ch'' @ str_nat k)"
  let ?c = "channel_value c (''ch'' @ str_nat k)"
  from assms obtain active where act: "any_gt0 ?a ?b ?c = Inr active"
    and rest: "(if active then
             and_then (py_int ?a) (\<lambda>m.
             and_then (py_int ?b) (\<lambda>c.
             and_then (py_int ?c) (\<lambda>p.
               Inr [\<lparr>monitor = monitor_num, channel = int k, datetime = dt,
                     mt = m, ct = c, pn = p\<rparr>])))
           else Inr []) = Inr ys"
    unfolding emit_channel_def Let_def and_then_Inr_iff by blast
  show ?thesis
  proof (cases active)
    case False
    with act rest show ?thesis by simp
  next
    case True
    with rest obtain m n p where m: "py_int ?a = Inr m" and n: "py_int ?b = Inr n"
      and p: "py_int ?c = Inr p"
      and ys: "ys = [\<lparr>monitor = monitor_num, channel = int k, datetime = dt, mt = m, ct = n, pn = p\<rparr>]"
      by (auto simp: and_then_Inr_iff)
    from act True have "(\<exists>n. ?a = Num n \<and> 0 < n) \<or> (\<exists>n. ?b = Num n \<and> 0 < n) \<or> (\<exists>n. ?c = Num n \<and> 0 < n)"
      by (simp add: any_gt0_True)
    with m n p have "0 < m \<or> 0 < n \<or> 0 < p"
      by (auto simp add: py_int_Num)
    with m n p ys show ?thesis by blast
  qed
qed




lemma main_Inr:
  assumes "main fs = (d, Inr joined)"
  shows "\<exists>md m5 m6. parse_details fs ''../details.txt'' = Inr md
          \<and> parse_monitor_file fs ''../Monitor5.txt'' 5 = Inr m5
          \<and> parse_monitor_file fs ''../Monitor6.txt'' 6 = Inr m6
          \<and> d = \<lparr>fly_metadata_csv = Some md, time_series_data_csv = Some (sort_values (m5 @ m6))\<rparr>
          \<and> joined = merge (sort_values (m5 @ m6)) md"
  using assms unfolding main_def and_then_def
  by (auto split: sum.splits)

section \<open>The example run\<close>

lemma example_monitor5:
  "parse_monitor_file example_fs ''../Monitor5.txt'' 5 =
     Inr [\<lparr>monitor = 5, channel = 1, datetime = Some (2024, 1, 1, 0, 0, 0), mt = 5, ct = 2, pn = 0\<rparr>]"
  by code_simp

lemma example_monitor6:
  "parse_monitor_file example_fs ''../Monitor6.txt'' 6 =
     Inr [\<lparr>monitor = 6, channel = 2, datetime = Some (2023, 12, 31, 23, 59, 0), mt = 4, ct = 0, pn = 0\<rparr>,
          \<lparr>monitor = 6, channel = 3, datetime = Some (2023, 12, 31, 23, 59, 0), mt = 1, ct = 0, pn = 0\<rparr>]"
  by code_simp

lemma example_details:
  "parse_details example_fs ''../details.txt'' =
     Inr [\<lparr>monitor = 5, channel = 1, fly_id = ''M5_Ch01'', genotype = Txt ''wt'', sex = Txt ''M'',
            treatment = Txt ''ctrl''\<rparr>,
          \<lparr>monitor = 6, channel = 2, fly_id = ''M6_Ch02'', genotype = Txt ''per0'', sex = Txt ''F'',
            treatment = Txt ''drug''\<rparr>]"
  by code_simp

lemma example_sorted:
  "sort_values
     ([\<lparr>monitor = 5, channel = 1, datetime = Some (2024, 1, 1, 0, 0, 0), mt = 5, ct = 2, pn = 0\<rparr>]
      @ [\<lparr>monitor = 6, channel = 2, datetime = Some (2023, 12, 31, 23, 59, 0), mt = 4, ct = 0, pn = 0\<rparr>,
         \<lparr>monitor = 6, channel = 3, datetime = Some (2023, 12, 31, 23, 59, 0), mt = 1, ct = 0, pn = 0\<rparr>])
   = [\<lparr>monitor = 6, channel = 2, datetime = Some (2023, 12, 31, 23, 59, 0), mt = 4, ct = 0, pn = 0\<rparr>,
      \<lparr>monitor = 6, channel = 3, datetime = Some (2023, 12, 31, 23, 59, 0), mt = 1, ct = 0, pn = 0\<rparr>,
      \<lparr>monitor = 5, channel = 1, datetime = Some (2024, 1, 1, 0, 0, 0), mt = 5, ct = 2, pn = 0\<rparr>]"
  by (simp add: sort_values_def sort_cols_def)

lemma example_main:
  "main example_fs =
     (\<lparr>fly_metadata_csv = Some
          [\<lparr>monitor = 5, channel = 1, fly_id = ''M5_Ch01'', genotype = Txt ''wt'', sex = Txt ''M'',
             treatment = Txt ''ctrl''\<rparr>,
           \<lparr>monitor = 6, channel = 2, fly_id = ''M6_Ch02'', genotype = Txt ''per0'', sex = Txt ''F'',
             treatment = Txt ''drug''\<rparr>],
        time_series_data_csv = Some
          [\<lparr>monitor = 6, channel = 2, datetime = Some (2023, 12, 31, 23, 59, 0), mt = 4, ct = 0, pn = 0\<rparr>,
           \<lparr>monitor = 6, channel = 3, datetime = Some (2023, 12, 31, 23, 59, 0), mt = 1, ct = 0, pn = 0\<rparr>,
           \<lparr>monitor = 5, channel = 1, datetime = Some (2024, 1, 1, 0, 0, 0), mt = 5, ct = 2, pn = 0\<rparr>]\<rparr>,
      Inr [(\<lparr>monitor = 6, channel = 2, datetime = Some (2023, 12, 31, 23, 59, 0), mt = 4, ct = 0, pn = 0\<rparr>,
            \<lparr>monitor = 6, channel = 2, fly_id = ''M6_Ch02'', genotype = Txt ''per0'', sex = Txt ''F'',
              treatment = Txt ''drug''\<rparr>),
           (\<lparr>monitor = 5, channel = 1, datetime = Some (2024, 1, 1, 0, 0, 0), mt = 5, ct = 2, pn = 0\<rparr>,
            \<lparr>monitor = 5, channel = 1, fly_id = ''M5_Ch01'', genotype = Txt ''wt'', sex = Txt ''M'',
              treatment = Txt ''ctrl''\<rparr>)])"
  unfolding main_def example_monitor5 example_monitor6 example_details and_then_Inr sum.case
    example_sorted
  by (simp add: merge_def)



section \<open>Timestamps of the emitted records\<close>

lemma col_index_date: "col_index ''date'' columns = Some 1"
  unfolding columns_code by simp

lemma col_index_time: "col_index ''time'' columns = Some 2"
  unfolding columns_code by simp

lemma col_index_id: "col_index ''id'' columns = Some 0"
  unfolding columns_code by simp


lemma get_date: "get x ''date'' = cell_at (fst x) 1"
  by (simp add: get_def col_index_date)

lemma get_time: "get x ''time'' = cell_at (fst x) 2"
  by (simp add: get_def col_index_time)

text \<open>The table with its timestamps, row by row.\<close>

lemma read_monitor_table_Inr:
  assumes "read_monitor_table fs filepath = Inr df"
  shows "\<exists>rows. read_csv_noheader fs filepath = Inr rows
           \<and> list_all (\<lambda>r. length r = length columns) rows
           \<and> map fst df = rows
           \<and> (\<forall>x \<in> set df.
                 (case get x ''date'' of
                    Txt a \<Rightarrow> (case get x ''time'' of
                                 Txt b \<Rightarrow> strptime (a @ '' '' @ b) = snd x \<and> snd x \<noteq> None
                               | NaN \<Rightarrow> snd x = None
                               | Num _ \<Rightarrow> False)
                  | NaN \<Rightarrow> snd x = None
                  | Num _ \<Rightarrow> False))"
proof -
  from assms obtain rows sp dt dts where rows: "read_csv_noheader fs filepath = Inr rows"
    and wide: "list_all (\<lambda>r. length r = length columns) rows"
    and sp: "add_str (map (\<lambda>r. cell_at r 1) rows) '' '' = Inr sp"
    and dt: "add_series sp (map (\<lambda>r. cell_at r 2) rows) = Inr dt"
    and dts: "to_datetime dt = Inr dts"
    and df: "df = zip rows dts"
    unfolding read_monitor_table_def and_then_Inr_iff set_columns_def column_def
    by (auto simp add: col_index_date col_index_time split: if_splits)
  let ?date = "map (\<lambda>r. cell_at r 1) rows" and ?time = "map (\<lambda>r. cell_at r 2) rows"
  from sp have 1: "list_all2 (\<lambda>c y. (case c of NaN \<Rightarrow> Inr None | Txt a \<Rightarrow> Inr (Some (a @ '' ''))
       | Num _ \<Rightarrow> Inl TypeError) = Inr y) ?date sp"
    unfolding add_str_def by (auto split: if_splits dest: traverse_Inr)
  from dt have 2: "list_all2 (\<lambda>xy z. (case xy of (x, y) \<Rightarrow> (case x of None \<Rightarrow> Inr None
         | Some a \<Rightarrow> (case y of NaN \<Rightarrow> Inr None | Txt b \<Rightarrow> Inr (Some (a @ b)) | Num _ \<Rightarrow> Inl TypeError))) = Inr z)
       (zip sp ?time) dt"
    unfolding add_series_def by (rule traverse_Inr)
  from dts have 3: "list_all2 (\<lambda>x t. (case x of None \<Rightarrow> Inr None
         | Some s \<Rightarrow> (case strptime s of Some t \<Rightarrow> Inr (Some t) | None \<Rightarrow> Inl ValueError)) = Inr t) dt dts"
    unfolding to_datetime_def by (rule traverse_Inr)
  have len: "length sp = length rows" "length dt = length rows" "length dts = length rows"
    using 1 2 3 by (auto dest!: list_all2_lengthD)
  have rowwise: "\<forall>x \<in> set df.
                 (case get x ''date'' of
                    Txt a \<Rightarrow> (case get x ''time'' of
                                 Txt b \<Rightarrow> strptime (a @ '' '' @ b) = snd x \<and> snd x \<noteq> None
                               | NaN \<Rightarrow> snd x = None
                               | Num _ \<Rightarrow> False)
                  | NaN \<Rightarrow> snd x = None
                  | Num _ \<Rightarrow> False)"
  proof
    fix x assume "x \<in> set df"
    then obtain i where i: "i < length rows" and x: "x = (rows ! i, dts ! i)"
      unfolding df using len by (auto simp add: set_zip)
    from 1 i have a: "(case cell_at (rows ! i) 1 of NaN \<Rightarrow> Inr None | Txt a \<Rightarrow> Inr (Some (a @ '' ''))
       | Num _ \<Rightarrow> Inl TypeError) = Inr (sp ! i)"
      by (auto dest: list_all2_nthD)
    from 2 i len have b: "(case sp ! i of None \<Rightarrow> Inr None
         | Some a \<Rightarrow> (case cell_at (rows ! i) 2 of NaN \<Rightarrow> Inr None | Txt b \<Rightarrow> Inr (Some (a @ b))
              | Num _ \<Rightarrow> Inl TypeError)) = Inr (dt ! i)"
      by (auto dest: list_all2_nthD)
    from 3 i len have h: "(case dt ! i of None \<Rightarrow> Inr None
         | Some s \<Rightarrow> (case strptime s of Some t \<Rightarrow> Inr (Some t) | None \<Rightarrow> Inl ValueError)) = Inr (dts ! i)"
      by (auto dest: list_all2_nthD)
    have c: "dts ! i = (case dt ! i of None \<Rightarrow> None | Some s \<Rightarrow> strptime s)"
    proof (cases "dt ! i")
      case None
      with h show ?thesis by simp
    next
      case (Some s)
      with h show ?thesis by (cases "strptime s") simp_all
    qed
    have c': "\<forall>s. dt ! i = Some s \<longrightarrow> strptime s \<noteq> None"
    proof (intro allI impI)
      fix s assume s: "dt ! i = Some s"
      show "strptime s \<noteq> None"
      proof
        assume "strptime s = None"
        with h s show False by simp
      qed
    qed
    from a b c c' show "(case get x ''date'' of
                    Txt a \<Rightarrow> (case get x ''time'' of
                                 Txt b \<Rightarrow> strptime (a @ '' '' @ b) = snd x \<and> snd x \<noteq> None
                               | NaN \<Rightarrow> snd x = None
                               | Num _ \<Rightarrow> False)
                  | NaN \<Rightarrow> snd x = None
                  | Num _ \<Rightarrow> False)"
      unfolding get_date get_time x
      by (auto split: cell.splits option.splits)
  qed
  from df len have "map fst df = rows" by simp
  with rows wide rowwise show ?thesis by blast
qed

lemma has_key_datetime:
  assumes "read_monitor_table fs filepath = Inr df" and "x \<in> set df" and "has_key x"
  shows "snd x \<noteq> None"
proof -
  from read_monitor_table_Inr [OF assms(1)] assms(2)
  have "(case get x ''date'' of
                    Txt a \<Rightarrow> (case get x ''time'' of
                                 Txt b \<Rightarrow> strptime (a @ '' '' @ b) = snd x \<and> snd x \<noteq> None
                               | NaN \<Rightarrow> snd x = None
                               | Num _ \<Rightarrow> False)
                  | NaN \<Rightarrow> snd x = None
                  | Num _ \<Rightarrow> False)"
    by blast
  with assms(3) show ?thesis
    by (auto simp add: has_key_def split: cell.splits)
qed

text \<open>The groups: non-empty, made of kept rows that have a key.\<close>

lemma groupby_member:
  assumes "g \<in> set (groupby rows)"
  shows "g \<noteq> [] \<and> (\<exists>x \<in> set rows. has_key x \<and> g = filter (\<lambda>r. group_key r = group_key x) (filter has_key rows))"
proof -
  from assms have "g \<in> (\<lambda>k. filter (\<lambda>r. group_key r = k) (filter has_key rows))
                      ` set (map group_key (filter has_key rows))"
    unfolding groupby_def Let_def by (simp only: set_map set_sort set_remdups)
  then obtain k where k: "k \<in> set (map group_key (filter has_key rows))"
    and g: "g = filter (\<lambda>r. group_key r = k) (filter has_key rows)"
    by blast
  from k obtain x where x: "x \<in> set rows" "has_key x" "group_key x = k" by auto
  with g have "x \<in> set g" by simp
  then have "g \<noteq> []" by auto
  with x g show ?thesis by blast
qed


lemma reshape_group_datetime:
  assumes "reshape_group monitor_num grp = Inr ys" and "r \<in> set ys"
  shows "grp \<noteq> [] \<and> datetime r = snd (hd grp) \<and> monitor r = monitor_num"
proof (cases grp)
  case Nil
  with assms show ?thesis by (simp add: reshape_group_def)
next
  case (Cons x xs)
  with assms have "collect (emit_channel monitor_num (snd x) (first_of_type grp ''MT'')
                     (first_of_type grp ''CT'') (first_of_type grp ''Pn'')) [1..<33] = Inr ys"
    by (simp add: reshape_group_def)
  from collect_Inr_mem [OF this assms(2)] Cons show ?thesis
    by (auto dest!: emit_channel_Inr)
qed

lemma parse_monitor_file_datetime:
  assumes "parse_monitor_file fs filepath monitor_num = Inr recs" and "r \<in> set recs"
  shows "datetime r \<noteq> None \<and> monitor r = monitor_num"
proof -
  from assms(1) obtain df where df: "read_monitor_table fs filepath = Inr df"
    and c: "collect (reshape_group monitor_num) (groupby (filter_movement df)) = Inr recs"
    unfolding parse_monitor_file_def and_then_Inr_iff by (auto split: if_splits)
  from collect_Inr_mem [OF c assms(2)] obtain g ys where g: "g \<in> set (groupby (filter_movement df))"
    and ys: "reshape_group monitor_num g = Inr ys" "r \<in> set ys"
    by blast
  from reshape_group_datetime [OF ys] have r: "g \<noteq> []" "datetime r = snd (hd g)" "monitor r = monitor_num"
    by auto
  from groupby_member [OF g] have "set g \<subseteq> {x \<in> set df. has_key x}"
    by (auto simp add: filter_movement_def)
  with r(1) have "hd g \<in> set df" "has_key (hd g)"
    by (auto dest: hd_in_set)
  with has_key_datetime [OF df] r show ?thesis by simp
qed

section \<open>Sorting\<close>

lemma sorted_sort_values: "sorted (map sort_cols (sort_values xs))"
  by (simp add: sort_values_def)

lemma sort_values_idem: "sort_values (sort_values xs) = sort_values xs"
  unfolding sort_values_def by (rule sort_key_id_if_sorted) simp

lemma set_sort_values: "set (sort_values xs) = set xs"
  by (simp add: sort_values_def)

lemma sorted_map_nth_less:
  fixes f :: "'a \<Rightarrow> 'b::linorder"
  assumes "sorted (map f xs)" and "i < length xs" and "j < length xs" and "f (xs ! i) < f (xs ! j)"
  shows "i < j"
proof (rule ccontr)
  assume "\<not> i < j"
  then have "j \<le> i" by simp
  with assms(1,2) have "map f xs ! j \<le> map f xs ! i"
    by (simp add: sorted_iff_nth_mono del: nth_map)
  with assms show False by simp
qed

lemma sort_cols_Some:
  "datetime r = Some t \<Longrightarrow> sort_cols r = ((0, t), monitor r, channel r)"
  by (simp add: sort_cols_def)

lemma sorted_by_datetime:
  assumes "sorted (map sort_cols ts)" and "\<forall>r \<in> set ts. datetime r \<noteq> None"
  shows "sorted (map (\<lambda>r. (the (datetime r), monitor r, channel r)) ts)"
proof -
  have "sorted_wrt (\<lambda>x y. sort_cols x \<le> sort_cols y) ts"
    using assms(1) by (simp add: sorted_map)
  then have "sorted_wrt (\<lambda>x y. (the (datetime x), monitor x, channel x) \<le> (the (datetime y), monitor y, channel y)) ts"
  proof (rule sorted_wrt_mono_rel [rotated])
    fix x y assume "x \<in> set ts" "y \<in> set ts" "sort_cols x \<le> sort_cols y"
    moreover from this assms(2) obtain a b where "datetime x = Some a" "datetime y = Some b"
      by blast
    ultimately show "(the (datetime x), monitor x, channel x) \<le> (the (datetime y), monitor y, channel y)"
      by (auto simp add: sort_cols_Some less_eq_prod_def less_prod_def)
  qed
  then show ?thesis by (simp add: sorted_map)
qed

text \<open>
  C3. The time-series table that \<open>main\<close> writes is the sorted concatenation of the two
  monitors' tables: every row has a timestamp, the rows are in non-decreasing order of
  (datetime, monitor, channel), sorting the table again changes nothing, and a row of
  monitor 6 with an earlier timestamp than a row of monitor 5 stands before it.
\<close>

theorem time_series_table_sorted:
  "main fs = (d, Inr joined) \<longrightarrow>
     (\<exists>m5 m6 ts.
        parse_monitor_file fs ''../Monitor5.txt'' 5 = Inr m5
        \<and> parse_monitor_file fs ''../Monitor6.txt'' 6 = Inr m6
        \<and> ts = sort_values (m5 @ m6)
        \<and> time_series_data_csv d = Some ts
        \<and> (\<forall>r \<in> set ts. datetime r \<noteq> None)
        \<and> sorted (map (\<lambda>r. (the (datetime r), monitor r, channel r)) ts)
        \<and> sort_values ts = ts
        \<and> (\<forall>i < length ts. \<forall>j < length ts.
              monitor (ts ! i) = 6 \<and> monitor (ts ! j) = 5
              \<and> the (datetime (ts ! i)) < the (datetime (ts ! j)) \<longrightarrow> i < j))"
proof
  assume "main fs = (d, Inr joined)"
  then obtain md m5 m6 where m5: "parse_monitor_file fs ''../Monitor5.txt'' 5 = Inr m5"
    and m6: "parse_monitor_file fs ''../Monitor6.txt'' 6 = Inr m6"
    and d: "d = \<lparr>fly_metadata_csv = Some md, time_series_data_csv = Some (sort_values (m5 @ m6))\<rparr>"
    by (blast dest: main_Inr)
  define ts where "ts = sort_values (m5 @ m6)"
  have dt: "\<forall>r \<in> set ts. datetime r \<noteq> None"
    using parse_monitor_file_datetime [OF m5] parse_monitor_file_datetime [OF m6]
    by (auto simp add: ts_def set_sort_values)
  have srt: "sorted (map (\<lambda>r. (the (datetime r), monitor r, channel r)) ts)"
    using dt by (simp add: sorted_by_datetime ts_def sorted_sort_values)
  have idem: "sort_values ts = ts"
    by (simp add: ts_def sort_values_idem)
  have pos: "\<forall>i < length ts. \<forall>j < length ts.
              monitor (ts ! i) = 6 \<and> monitor (ts ! j) = 5
              \<and> the (datetime (ts ! i)) < the (datetime (ts ! j)) \<longrightarrow> i < j"
  proof (intro allI impI)
    fix i j assume i: "i < length ts" and j: "j < length ts"
      and h: "monitor (ts ! i) = 6 \<and> monitor (ts ! j) = 5
              \<and> the (datetime (ts ! i)) < the (datetime (ts ! j))"
    then have "(the (datetime (ts ! i)), monitor (ts ! i), channel (ts ! i))
                 < (the (datetime (ts ! j)), monitor (ts ! j), channel (ts ! j))"
      by (simp add: less_prod_def)
    with sorted_map_nth_less [OF srt i j] show "i < j" by simp
  qed
  from m5 m6 d dt srt idem pos show "\<exists>m5 m6 ts.
        parse_monitor_file fs ''../Monitor5.txt'' 5 = Inr m5
        \<and> parse_monitor_file fs ''../Monitor6.txt'' 6 = Inr m6
        \<and> ts = sort_values (m5 @ m6)
        \<and> time_series_data_csv d = Some ts
        \<and> (\<forall>r \<in> set ts. datetime r \<noteq> None)
        \<and> sorted (map (\<lambda>r. (the (datetime r), monitor r, channel r)) ts)
        \<and> sort_values ts = ts
        \<and> (\<forall>i < length ts. \<forall>j < length ts.
              monitor (ts ! i) = 6 \<and> monitor (ts ! j) = 5
              \<and> the (datetime (ts ! i)) < the (datetime (ts ! j)) \<longrightarrow> i < j)"
    unfolding ts_def by (intro exI [of _ m5] exI [of _ m6] exI [of _ "sort_values (m5 @ m6)"]) simp
qed

theorem time_series_table_sorted_witness:
  "\<exists>d joined ts. main example_fs = (d, Inr joined)
     \<and> time_series_data_csv d = Some ts
     \<and> ts = [\<lparr>monitor = 6, channel = 2, datetime = Some (2023, 12, 31, 23, 59, 0), mt = 4, ct = 0, pn = 0\<rparr>,
             \<lparr>monitor = 6, channel = 3, datetime = Some (2023, 12, 31, 23, 59, 0), mt = 1, ct = 0, pn = 0\<rparr>,
             \<lparr>monitor = 5, channel = 1, datetime = Some (2024, 1, 1, 0, 0, 0), mt = 5, ct = 2, pn = 0\<rparr>]
     \<and> sorted (map (\<lambda>r. (the (datetime r), monitor r, channel r)) ts)
     \<and> sort_values ts = ts"
proof -
  obtain d joined where m: "main example_fs = (d, Inr joined)"
    and d: "time_series_data_csv d = Some
             [\<lparr>monitor = 6, channel = 2, datetime = Some (2023, 12, 31, 23, 59, 0), mt = 4, ct = 0, pn = 0\<rparr>,
              \<lparr>monitor = 6, channel = 3, datetime = Some (2023, 12, 31, 23, 59, 0), mt = 1, ct = 0, pn = 0\<rparr>,
              \<lparr>monitor = 5, channel = 1, datetime = Some (2024, 1, 1, 0, 0, 0), mt = 5, ct = 2, pn = 0\<rparr>]"
    using example_main by simp
  from time_series_table_sorted [of example_fs d joined] m
  obtain ts where "time_series_data_csv d = Some ts"
    and "sorted (map (\<lambda>r. (the (datetime r), monitor r, channel r)) ts)"
    and "sort_values ts = ts"
    by blast
  with m d show ?thesis by (intro exI [of _ d] exI [of _ joined] exI [of _ ts]) simp
qed

section \<open>Groups\<close>













section \<open>Rows of a repeated movement type\<close>






end
